theory Spec2Isabelle
  imports Main "HOL-Library.List_Lexorder" "HOL-Library.Char_ord" "HOL-Library.Multiset"
begin

section \<open>Data model of sync\_unifi\_filters.py\<close>

text \<open>
  JSON values as Python's \<open>json\<close> module hands them over. Python's \<open>None\<close> is
  \<open>JNull\<close>; an object is the item list of the parsed dict, read with \<open>map_of\<close>.
  Numbers are kept as integers; the program never computes with them.
\<close>

datatype json =
    JNull
  | JBool bool
  | JNum int
  | JStr string
  | JArr "json list"
  | JObj "(string \<times> json) list"

text \<open>Python truthiness (\<open>if x:\<close>) of a JSON value.\<close>

fun truthy :: "json \<Rightarrow> bool" where
  "truthy JNull = False"
| "truthy (JBool b) = b"
| "truthy (JNum n) = (n \<noteq> 0)"
| "truthy (JStr s) = (s \<noteq> [])"
| "truthy (JArr xs) = (xs \<noteq> [])"
| "truthy (JObj kvs) = (kvs \<noteq> [])"

text \<open>
  A filter object of the controller's content-filtering collection: a dict. The three keys
  the program touches are typed as the interface gives them (\<open>_id\<close> and \<open>name\<close> strings,
  \<open>block_list\<close> an array of strings); each may be missing, which is \<open>None\<close>. Every
  other key of the dict is in \<open>cf_other\<close>.
\<close>

record content_filter =
  cf_id :: "string option"
  cf_name :: "string option"
  cf_block_list :: "string list option"
  cf_other :: "(string \<times> json) list"


text \<open>\<open>not content_filter\<close> on a dict: true exactly for the dict without keys.\<close>

definition is_empty_dict :: "content_filter \<Rightarrow> bool" where
  "is_empty_dict f \<longleftrightarrow>
     cf_id f = None \<and> cf_name f = None \<and> cf_block_list f = None \<and> cf_other f = []"

text \<open>
  Exceptions. \<open>RequestException\<close> stands for the whole class of \<open>requests\<close>
  (connection failures, the \<open>HTTPError\<close> of \<open>raise_for_status\<close>, the
  \<open>InvalidHeader\<close> of a refused header value). \<open>Binascii_Error\<close> is
  \<open>binascii.Error\<close>.
\<close>

datatype exn =
    RequestException
  | KeyError
  | SystemExit nat
  | Binascii_Error
  | ValueError
  | JSONDecodeError
  | AttributeError
  | CookieConflictError

text \<open>
  What the controller answers to one request: the transport fails (an exception of
  \<open>requests\<close>), or a response arrives with its status code and payload. The payload
  of the login response is the value of the cookie named \<open>TOKEN\<close> that it sets,
  if it sets one.
\<close>

datatype 'a response = Transport_Failure | Response nat 'a

record controller =
  login_reply :: "string option response"
  filters_reply :: "content_filter list response"
  update_reply :: "unit response"

text \<open>
  \<open>Response.raise_for_status\<close> of the \<open>requests\<close> library raises \<open>HTTPError\<close> for
  the client-error and server-error status codes, 400 to 599, and for no other.
\<close>

definition raise_for_status :: "nat \<Rightarrow> exn + unit" where
  "raise_for_status status =
     (if 400 \<le> status \<and> status < 600 then Inl RequestException else Inr ())"

datatype http_request =
    POST string "string \<times> string"
  | GET string
  | PUT string content_filter "(string \<times> json) list"

fun is_PUT :: "http_request \<Rightarrow> bool" where
  "is_PUT (PUT url body headers) = True"
| "is_PUT r = False"

text \<open>
  The lines the program prints to the error stream, one constructor per \<open>print\<close> of the
  source with the values it formats in. \<open>failure_glyph\<close> holds for the lines that the
  source starts with the cross mark.
\<close>

datatype diag =
    Csrf_Warning
  | Logged_In bool
  | Filter_Not_Found string
  | Updated nat
  | File_Not_Found string
  | Read_Domains nat string
  | Wrote_Domains nat string
  | Fetched nat
  | No_Domains
  | Request_Error

fun failure_glyph :: "diag \<Rightarrow> bool" where
  "failure_glyph (Filter_Not_Found n) = True"
| "failure_glyph (File_Not_Found p) = True"
| "failure_glyph No_Domains = True"
| "failure_glyph Request_Error = True"
| "failure_glyph d = False"

text \<open>The module's configuration constants, read once from the environment.\<close>

record config =
  UNIFI_HOST :: string
  UNIFI_USERNAME :: string
  UNIFI_PASSWORD :: string
  SITE_NAME :: string

text \<open>
  \<open>json.loads\<close> of the standard library, which the token extraction calls on the
  decoded bytes, is a parameter: \<open>None\<close> is the exception it raises.
\<close>

record codecs =
  json_loads :: "string \<Rightarrow> json option"

text \<open>
  Everything the run mutates: the client's \<open>csrf_token\<close>, the requests handed to the
  network so far, both output streams and the files. A file is its text; characters are
  code points below 256.
\<close>

record state =
  csrf_token :: json
  sent :: "http_request list"
  stderr :: "diag list"
  stdout :: string
  files :: "string \<rightharpoonup> string"

definition print_err :: "diag \<Rightarrow> state \<Rightarrow> state" where
  "print_err d s = s\<lparr>stderr := stderr s @ [d]\<rparr>"

definition send :: "http_request \<Rightarrow> state \<Rightarrow> state" where
  "send r s = s\<lparr>sent := sent s @ [r]\<rparr>"

section \<open>String operations of Python\<close>

abbreviation LF :: char where "LF \<equiv> CHR 0x0A"
abbreviation CR :: char where "CR \<equiv> CHR 0x0D"

text \<open>\<open>str.isspace\<close> on the code points below 256.\<close>

definition isspace :: "char \<Rightarrow> bool" where
  "isspace c \<longleftrightarrow>
     (of_char c :: nat) \<in> {9, 10, 11, 12, 13, 28, 29, 30, 31, 32, 133, 160}"

definition strip :: "string \<Rightarrow> string" where
  "strip s = rev (dropWhile isspace (rev (dropWhile isspace s)))"

definition rstrip_char :: "char \<Rightarrow> string \<Rightarrow> string" where
  "rstrip_char c s = rev (dropWhile (\<lambda>x. x = c) (rev s))"

definition startswith :: "string \<Rightarrow> string \<Rightarrow> bool" where
  "startswith s p \<longleftrightarrow> take (length p) s = p"

text \<open>\<open>s.split(c)\<close> for a one-character separator: never an empty result.\<close>

fun split_on :: "char \<Rightarrow> string \<Rightarrow> string list" where
  "split_on c [] = [[]]"
| "split_on c (x # xs) =
     (if x = c then [] # split_on c xs
      else (case split_on c xs of
              p # ps \<Rightarrow> (x # p) # ps
            | [] \<Rightarrow> [[x]]))"

text \<open>
  Reading a text file: universal newlines turn \<open>CR LF\<close> and a lone \<open>CR\<close> into \<open>LF\<close>,
  and iterating the file gives the lines, each with its \<open>LF\<close>, the last one without
  if the text does not end in one.
\<close>

fun universal_newlines :: "string \<Rightarrow> string" where
  "universal_newlines [] = []"
| "universal_newlines [x] = [if x = CR then LF else x]"
| "universal_newlines (x # y # xs) =
     (if x = CR \<and> y = LF then LF # universal_newlines xs
      else if x = CR then LF # universal_newlines (y # xs)
      else x # universal_newlines (y # xs))"

fun iter_lines :: "string \<Rightarrow> string \<Rightarrow> string list" where
  "iter_lines cur [] = (if cur = [] then [] else [cur])"
| "iter_lines cur (x # xs) =
     (if x = LF then (cur @ [x]) # iter_lines [] xs else iter_lines (cur @ [x]) xs)"

definition file_lines :: "string \<Rightarrow> string list" where
  "file_lines text = iter_lines [] (universal_newlines text)"

section \<open>The controller client: class UnifiContentFilter\<close>

text \<open>\<open>self.host = host.rstrip('/')\<close> of the constructor.\<close>

definition client_host :: "config \<Rightarrow> string" where
  "client_host cfg = rstrip_char CHR ''/'' (UNIFI_HOST cfg)"

text \<open>The client as \<open>__init__\<close> leaves it, before any request.\<close>

definition init_state :: "(string \<rightharpoonup> string) \<Rightarrow> state" where
  "init_state fs =
     \<lparr>csrf_token = JNull, sent = [], stderr = [], stdout = [], files = fs\<rparr>"

text \<open>
  \<open>base64.urlsafe_b64decode\<close> on a \<open>str\<close>. A character above 127 raises
  \<open>ValueError\<close>. Then \<open>-\<close> and \<open>_\<close> are translated to \<open>+\<close> and \<open>/\<close>, and
  \<open>binascii.a2b_base64\<close> runs in its default, non-strict mode: \<open>table_a2b_base64\<close>
  gives the six bits of an alphabet character and \<open>None\<close> for any other character.
\<close>

definition urlsafe_translate :: "char \<Rightarrow> char" where
  "urlsafe_translate c =
     (if c = CHR ''-'' then CHR ''+'' else if c = CHR ''_'' then CHR ''/'' else c)"

definition table_a2b_base64 :: "char \<Rightarrow> nat option" where
  "table_a2b_base64 c =
     (let n = (of_char c :: nat)
      in if 65 \<le> n \<and> n \<le> 90 then Some (n - 65)
         else if 97 \<le> n \<and> n \<le> 122 then Some (n - 71)
         else if 48 \<le> n \<and> n \<le> 57 then Some (n + 4)
         else if c = CHR ''+'' then Some 62
         else if c = CHR ''/'' then Some 63
         else None)"

text \<open>
  The loop of \<open>a2b_base64\<close> over the input, with its variables \<open>quad_pos\<close>,
  \<open>leftchar\<close> and \<open>pads\<close> and the bytes written so far. A character outside the
  alphabet is skipped. A pad \<open>=\<close> is skipped too, unless the current group has two
  characters or more and the pads since the last alphabet character complete it: then
  the decoding is done and the rest of the input is not read. Input that ends inside a
  group raises \<open>binascii.Error\<close>.
\<close>

fun a2b_loop :: "nat \<Rightarrow> nat \<Rightarrow> nat \<Rightarrow> string \<Rightarrow> string \<Rightarrow> exn + string" where
  "a2b_loop quad_pos leftchar pads bin_data [] =
     (if quad_pos \<noteq> 0 then Inl Binascii_Error else Inr bin_data)"
| "a2b_loop quad_pos leftchar pads bin_data (this_ch # rest) =
     (if this_ch = CHR ''='' then
        (if 2 \<le> quad_pos \<and> 4 \<le> quad_pos + (pads + 1) then Inr bin_data
         else a2b_loop quad_pos leftchar (if 2 \<le> quad_pos then pads + 1 else pads)
                bin_data rest)
      else (case table_a2b_base64 this_ch of
              None \<Rightarrow> a2b_loop quad_pos leftchar pads bin_data rest
            | Some v \<Rightarrow>
                if quad_pos = 0 then a2b_loop 1 v 0 bin_data rest
                else if quad_pos = 1 then
                  a2b_loop 2 (v mod 16) 0 (bin_data @ [char_of (leftchar * 4 + v div 16)]) rest
                else if quad_pos = 2 then
                  a2b_loop 3 (v mod 4) 0 (bin_data @ [char_of (leftchar * 16 + v div 4)]) rest
                else a2b_loop 0 0 0 (bin_data @ [char_of (leftchar * 64 + v)]) rest))"

definition urlsafe_b64decode :: "string \<Rightarrow> exn + string" where
  "urlsafe_b64decode s =
     (if list_ex (\<lambda>c. 127 < (of_char c :: nat)) s then Inl ValueError
      else a2b_loop 0 0 0 [] (map urlsafe_translate s))"

text \<open>
  \<open>session.cookies.get('TOKEN')\<close>, on the values of the cookies named \<open>TOKEN\<close> in
  the order the jar yields them. \<open>find_no_duplicates\<close> is the loop of
  \<open>_find_no_duplicates\<close> with its variable \<open>toReturn\<close>: a second cookie of the name
  raises \<open>CookieConflictError\<close>; no cookie, or an empty value, is the \<open>KeyError\<close>
  that \<open>get\<close> turns into \<open>None\<close>.
\<close>

fun find_no_duplicates :: "string option \<Rightarrow> string list \<Rightarrow> exn + string" where
  "find_no_duplicates toReturn [] =
     (case toReturn of
        None \<Rightarrow> Inl KeyError
      | Some v \<Rightarrow> if v \<noteq> [] then Inr v else Inl KeyError)"
| "find_no_duplicates toReturn (v # cookies) =
     (case toReturn of
        Some earlier \<Rightarrow> Inl CookieConflictError
      | None \<Rightarrow> find_no_duplicates (Some v) cookies)"

definition cookies_get :: "string list \<Rightarrow> exn + string option" where
  "cookies_get jar =
     (case find_no_duplicates None jar of
        Inr v \<Rightarrow> Inr (Some v)
      | Inl KeyError \<Rightarrow> Inr None
      | Inl e \<Rightarrow> Inl e)"

text \<open>
  The body of the \<open>try\<close> in \<open>_extract_csrf_token\<close>, for a non-empty cookie: \<open>Inl\<close> is
  the exception a statement of the body raises, \<open>Inr\<close> the value a \<open>return\<close> gives.
  \<open>payload_data.get\<close> on a value that is not a dict raises \<open>AttributeError\<close>.
\<close>

definition pad_payload :: "string \<Rightarrow> string" where
  "pad_payload payload =
     (let padding = 4 - length payload mod 4
      in if padding \<noteq> 4 then payload @ replicate padding CHR ''='' else payload)"

definition csrf_try :: "codecs \<Rightarrow> string \<Rightarrow> exn + json" where
  "csrf_try cd token_cookie =
     (let parts = split_on CHR ''.'' token_cookie
      in if length parts \<noteq> 3 then Inr JNull
         else (case urlsafe_b64decode (pad_payload (parts ! 1)) of
                 Inl e \<Rightarrow> Inl e
               | Inr decoded \<Rightarrow>
                   (case json_loads cd decoded of
                      None \<Rightarrow> Inl JSONDecodeError
                    | Some (JObj payload_data) \<Rightarrow>
                        (case map_of payload_data ''csrfToken'' of
                           None \<Rightarrow> Inr JNull
                         | Some v \<Rightarrow> Inr v)
                    | Some other \<Rightarrow> Inl AttributeError)))"

text \<open>
  \<open>_extract_csrf_token\<close>, on the session's cookies named \<open>TOKEN\<close>. The lookup stands
  before the \<open>try\<close>, so its exception leaves the function; no cookie or an empty one
  gives \<open>None\<close>; the handler \<open>except Exception\<close> turns every exception of the body
  into a warning and \<open>None\<close>.
\<close>

definition extract_csrf_token :: "codecs \<Rightarrow> string list \<Rightarrow> state \<Rightarrow> (exn + json) \<times> state" where
  "extract_csrf_token cd jar s =
     (case cookies_get jar of
        Inl e \<Rightarrow> (Inl e, s)
      | Inr None \<Rightarrow> (Inr JNull, s)
      | Inr (Some token_cookie) \<Rightarrow>
          if token_cookie = [] then (Inr JNull, s)
          else (case csrf_try cd token_cookie of
                  Inl e \<Rightarrow> (Inr JNull, print_err Csrf_Warning s)
                | Inr v \<Rightarrow> (Inr v, s)))"

text \<open>
  \<open>login\<close>. \<open>main\<close> calls it once, on the session the constructor has just made, so
  after the request the session's cookies named \<open>TOKEN\<close> are those the response set.
\<close>

definition session_cookies :: "string option \<Rightarrow> string list" where
  "session_cookies cookie = (case cookie of None \<Rightarrow> [] | Some v \<Rightarrow> [v])"

definition login :: "config \<Rightarrow> codecs \<Rightarrow> controller \<Rightarrow> state \<Rightarrow> (exn + unit) \<times> state" where
  "login cfg cd ctl s =
     (let url = client_host cfg @ ''/api/auth/login'';
          s1 = send (POST url (UNIFI_USERNAME cfg, UNIFI_PASSWORD cfg)) s
      in case login_reply ctl of
           Transport_Failure \<Rightarrow> (Inl RequestException, s1)
         | Response status cookie \<Rightarrow>
             (case raise_for_status status of
                Inl e \<Rightarrow> (Inl e, s1)
              | Inr u \<Rightarrow>
                  (case extract_csrf_token cd (session_cookies cookie) s1 of
                     (Inl e, s2) \<Rightarrow> (Inl e, s2)
                   | (Inr tok, s2) \<Rightarrow>
                       (let s3 = s2\<lparr>csrf_token := tok\<rparr>
                        in (Inr (), print_err (Logged_In (truthy tok)) s3)))))"

definition filters_url :: "config \<Rightarrow> string" where
  "filters_url cfg =
     client_host cfg @ ''/proxy/network/v2/api/site/'' @ SITE_NAME cfg @ ''/content-filtering''"

definition get_content_filters ::
  "config \<Rightarrow> controller \<Rightarrow> state \<Rightarrow> (exn + content_filter list) \<times> state" where
  "get_content_filters cfg ctl s =
     (let s1 = send (GET (filters_url cfg)) s
      in case filters_reply ctl of
           Transport_Failure \<Rightarrow> (Inl RequestException, s1)
         | Response status filters \<Rightarrow>
             (case raise_for_status status of
                Inl e \<Rightarrow> (Inl e, s1)
              | Inr u \<Rightarrow> (Inr filters, s1)))"

text \<open>The loop of \<open>find_filter\<close> over the collection; \<open>None\<close> is Python's \<open>None\<close>.\<close>

fun find_in :: "content_filter list \<Rightarrow> string \<Rightarrow> content_filter option" where
  "find_in [] filter_name = None"
| "find_in (f # filters) filter_name =
     (if cf_name f = Some filter_name then Some f else find_in filters filter_name)"

definition find_filter ::
  "config \<Rightarrow> controller \<Rightarrow> string \<Rightarrow> state \<Rightarrow> (exn + content_filter option) \<times> state" where
  "find_filter cfg ctl filter_name s =
     (case get_content_filters cfg ctl s of
        (Inl e, s1) \<Rightarrow> (Inl e, s1)
      | (Inr filters, s1) \<Rightarrow> (Inr (find_in filters filter_name), s1))"

text \<open>\<open>not content_filter\<close>: the value is \<open>None\<close> or the empty dict.\<close>

definition not_filter :: "content_filter option \<Rightarrow> bool" where
  "not_filter r = (case r of None \<Rightarrow> True | Some f \<Rightarrow> is_empty_dict f)"

text \<open>
  What \<open>session.put\<close> does with the headers before anything goes to the network.
  Preparing the request, \<open>requests\<close> checks each header value: it must be a \<open>str\<close>
  that matches \<open>^\S[^\r\n]*$|^$\<close>, or \<open>InvalidHeader\<close> (a \<open>RequestException\<close>) is
  raised; \<open>$\<close> also matches before one final line feed. Writing the request,
  \<open>http.client\<close> raises \<open>ValueError\<close> for a value with a line feed that no blank or
  tab follows, or a carriage return that no blank, tab or line feed follows.
\<close>

definition header_value_matches :: "string \<Rightarrow> bool" where
  "header_value_matches t =
     (t = [] \<or> t = [LF]
      \<or> (\<not> isspace (hd t)
         \<and> (let r = tl t;
                  body = (if r \<noteq> [] \<and> last r = LF then butlast r else r)
              in LF \<notin> set body \<and> CR \<notin> set body)))"

fun is_illegal_header_value :: "string \<Rightarrow> bool" where
  "is_illegal_header_value [] = False"
| "is_illegal_header_value [x] = (x = LF \<or> x = CR)"
| "is_illegal_header_value (x # y # rest) =
     (if x = LF \<and> y \<noteq> CHR '' '' \<and> y \<noteq> CHR 0x09 then True
      else if x = CR \<and> y \<noteq> CHR '' '' \<and> y \<noteq> CHR 0x09 \<and> y \<noteq> LF then True
      else is_illegal_header_value (y # rest))"

fun check_header_value :: "json \<Rightarrow> exn option" where
  "check_header_value (JStr t) =
     (if \<not> header_value_matches t then Some RequestException
      else if is_illegal_header_value t then Some ValueError
      else None)"
| "check_header_value v = Some RequestException"

fun check_headers :: "(string \<times> json) list \<Rightarrow> exn option" where
  "check_headers [] = None"
| "check_headers ((name, v) # headers) =
     (case check_header_value v of
        Some e \<Rightarrow> Some e
      | None \<Rightarrow> check_headers headers)"

definition update_content_filters ::
  "config \<Rightarrow> controller \<Rightarrow> string \<Rightarrow> string list \<Rightarrow> state \<Rightarrow> (exn + bool) \<times> state" where
  "update_content_filters cfg ctl filter_name domains s =
     (case find_filter cfg ctl filter_name s of
        (Inl e, s1) \<Rightarrow> (Inl e, s1)
      | (Inr r, s1) \<Rightarrow>
          (case (if not_filter r then None else r) of
             None \<Rightarrow> (Inr False, print_err (Filter_Not_Found filter_name) s1)
           | Some found \<Rightarrow>
               (case cf_id found of
                  None \<Rightarrow> (Inl KeyError, s1)
                | Some filter_id \<Rightarrow>
                    (let url = filters_url cfg @ ''/'' @ filter_id;
                         content_filter = found\<lparr>cf_block_list := Some domains\<rparr>;
                         headers = (if truthy (csrf_token s1)
                                    then [(''X-CSRF-Token'', csrf_token s1)] else [])
                     in case check_headers headers of
                          Some e \<Rightarrow> (Inl e, s1)
                        | None \<Rightarrow>
                            (let s2 = send (PUT url content_filter headers) s1
                             in case update_reply ctl of
                                  Transport_Failure \<Rightarrow> (Inl RequestException, s2)
                                | Response status u \<Rightarrow>
                                    (case raise_for_status status of
                                       Inl e \<Rightarrow> (Inl e, s2)
                                     | Inr u \<Rightarrow>
                                         (Inr True,
                                          print_err (Updated (length domains)) s2)))))))"

section \<open>The file codec\<close>

text \<open>The loop of \<open>read_filter_file\<close> over the lines, appending to \<open>domains\<close>.\<close>

fun read_loop :: "string list \<Rightarrow> string list \<Rightarrow> string list" where
  "read_loop domains [] = domains"
| "read_loop domains (line # rest) =
     (let line = strip line
      in if line \<noteq> [] \<and> \<not> startswith line ''#''
         then read_loop (domains @ [line]) rest
         else read_loop domains rest)"

definition read_filter_file :: "string \<Rightarrow> bool \<Rightarrow> state \<Rightarrow> string list \<times> state" where
  "read_filter_file filepath silent s =
     (case files s filepath of
        None \<Rightarrow> ([], if \<not> silent then print_err (File_Not_Found filepath) s else s)
      | Some text \<Rightarrow>
          (let domains = read_loop [] (file_lines text)
           in (domains,
               if \<not> silent then print_err (Read_Domains (length domains) filepath) s
               else s)))"

text \<open>
  The header \<open>write_filter_file\<close> writes before the domains: the title line with the
  filter's name, two fixed comment lines, and an empty line.
\<close>

definition header_line2 :: string where
  "header_line2 =
     ''# Lines starting with '' @ [CHR 0x27] @ ''#'' @ [CHR 0x27] @ '' are comments''"

definition header_line3 :: string where
  "header_line3 =
     ''# Edit this file and run '' @ [CHR 0x27] @ ''sync'' @ [CHR 0x27]
     @ '' to update the Unifi controller''"

definition file_header :: "string \<Rightarrow> string" where
  "file_header filter_name =
     ''# '' @ filter_name @ [LF] @ header_line2 @ [LF] @ header_line3 @ [LF, LF]"

text \<open>The loop \<open>for domain in sorted(domains): f.write(domain + LF)\<close>, on the text so far.\<close>

fun write_loop :: "string \<Rightarrow> string list \<Rightarrow> string" where
  "write_loop text [] = text"
| "write_loop text (domain # rest) = write_loop (text @ domain @ [LF]) rest"

definition write_filter_file :: "string \<Rightarrow> string list \<Rightarrow> string \<Rightarrow> state \<Rightarrow> state" where
  "write_filter_file filepath domains filter_name s =
     (let text = write_loop (file_header filter_name) (sort domains);
          s1 = s\<lparr>files := (files s)(filepath \<mapsto> text)\<rparr>
      in print_err (Wrote_Domains (length domains) filepath) s1)"

section \<open>The command dispatch: main\<close>

text \<open>
  The parsed command line: \<open>fetch filter_name [-o output]\<close> or \<open>sync filter_name file\<close>.
\<close>

datatype args = Fetch string "string option" | Sync string string

text \<open>The loop \<open>for domain in sorted(domains): print(domain)\<close>.\<close>

fun print_loop :: "string list \<Rightarrow> state \<Rightarrow> state" where
  "print_loop [] s = s"
| "print_loop (domain # rest) s = print_loop rest (s\<lparr>stdout := stdout s @ domain @ [LF]\<rparr>)"

definition fetch_command ::
  "config \<Rightarrow> controller \<Rightarrow> string \<Rightarrow> string option \<Rightarrow> state \<Rightarrow> (exn + unit) \<times> state" where
  "fetch_command cfg ctl filter_name output s =
     (case find_filter cfg ctl filter_name s of
        (Inl e, s1) \<Rightarrow> (Inl e, s1)
      | (Inr r, s1) \<Rightarrow>
          (case (if not_filter r then None else r) of
             None \<Rightarrow> (Inl (SystemExit 1), print_err (Filter_Not_Found filter_name) s1)
           | Some content_filter \<Rightarrow>
               (let domains = (case cf_block_list content_filter of None \<Rightarrow> [] | Some ds \<Rightarrow> ds);
                    s2 = print_err (Fetched (length domains)) s1
                in case (if output = Some [] then None else output) of
                     Some path \<Rightarrow> (Inr (), write_filter_file path domains filter_name s2)
                   | None \<Rightarrow> (Inr (), print_loop (sort domains) s2))))"

definition sync_command ::
  "config \<Rightarrow> controller \<Rightarrow> string \<Rightarrow> string \<Rightarrow> state \<Rightarrow> (exn + unit) \<times> state" where
  "sync_command cfg ctl filter_name file s =
     (case read_filter_file file False s of
        (domains, s1) \<Rightarrow>
          if domains \<noteq> [] then
            (case update_content_filters cfg ctl filter_name domains s1 of
               (Inl e, s2) \<Rightarrow> (Inl e, s2)
             | (Inr success, s2) \<Rightarrow>
                 if \<not> success then (Inl (SystemExit 1), s2) else (Inr (), s2))
          else (Inl (SystemExit 1), print_err No_Domains s1))"

text \<open>The body of the \<open>try\<close> in \<open>main\<close>.\<close>

definition main_try ::
  "config \<Rightarrow> codecs \<Rightarrow> controller \<Rightarrow> args \<Rightarrow> state \<Rightarrow> (exn + unit) \<times> state" where
  "main_try cfg cd ctl a s =
     (case login cfg cd ctl s of
        (Inl e, s1) \<Rightarrow> (Inl e, s1)
      | (Inr u, s1) \<Rightarrow>
          (case a of
             Fetch filter_name output \<Rightarrow> fetch_command cfg ctl filter_name output s1
           | Sync filter_name file \<Rightarrow> sync_command cfg ctl filter_name file s1))"

text \<open>
  How the process ends: with an exit status, or with the traceback of an exception that
  nothing catches. \<open>main\<close> catches \<open>RequestException\<close> only; \<open>sys.exit\<close> passes through.
\<close>

datatype outcome = Exit nat | Traceback exn

definition main :: "config \<Rightarrow> codecs \<Rightarrow> controller \<Rightarrow> args \<Rightarrow> state \<Rightarrow> outcome \<times> state" where
  "main cfg cd ctl a s =
     (case main_try cfg cd ctl a s of
        (Inr u, s1) \<Rightarrow> (Exit 0, s1)
      | (Inl RequestException, s1) \<Rightarrow> (Exit 1, print_err Request_Error s1)
      | (Inl (SystemExit n), s1) \<Rightarrow> (Exit n, s1)
      | (Inl e, s1) \<Rightarrow> (Traceback e, s1))"

section \<open>Specification vocabulary and sample data\<close>

text \<open>
  A domain that the file format carries unchanged: not empty, no white space at either
  end, no \<open>#\<close> in front, no line break inside.
\<close>

definition clean_domain :: "string \<Rightarrow> bool" where
  "clean_domain d \<longleftrightarrow>
     d \<noteq> [] \<and> \<not> isspace (hd d) \<and> \<not> isspace (last d) \<and> hd d \<noteq> CHR ''#''
     \<and> LF \<notin> set d \<and> CR \<notin> set d"

text \<open>The text the domains take in a file or on standard output: one per line.\<close>

definition one_per_line :: "string list \<Rightarrow> string" where
  "one_per_line ds = concat (map (\<lambda>d. d @ [LF]) ds)"

text \<open>
  A token usable as the value of the \<open>X-CSRF-Token\<close> header: none was captured (a
  false value), or a string without white space in front and without a line break.
\<close>

fun usable_token :: "json \<Rightarrow> bool" where
  "usable_token (JStr t) = (t = [] \<or> (\<not> isspace (hd t) \<and> LF \<notin> set t \<and> CR \<notin> set t))"
| "usable_token v = (\<not> truthy v)"

fun is_object :: "json \<Rightarrow> bool" where
  "is_object (JObj kvs) = True"
| "is_object v = False"

text \<open>
  A controller with five filter objects. The sample \<open>json_loads\<close> gives what
  \<open>json.loads\<close> gives on the byte strings listed, which are the only ones the samples
  decode; \<open>quoted\<close> puts a word between double quotes.
\<close>

definition example_config :: config where
  "example_config =
     \<lparr>UNIFI_HOST = ''https://unifi.local/'', UNIFI_USERNAME = ''admin'',
      UNIFI_PASSWORD = ''password'', SITE_NAME = ''default''\<rparr>"

definition quoted :: "string \<Rightarrow> string" where
  "quoted w = [CHR 0x22] @ w @ [CHR 0x22]"

definition example_payload :: string where
  "example_payload = ''{'' @ quoted ''csrfToken'' @ '':'' @ quoted ''x'' @ ''}''"

definition numeric_payload :: string where
  "numeric_payload = ''{'' @ quoted ''csrfToken'' @ '':123}''"

definition blank_payload :: string where
  "blank_payload = ''{'' @ quoted ''csrfToken'' @ '':'' @ quoted '' x'' @ ''}''"

definition example_codecs :: codecs where
  "example_codecs =
     \<lparr>json_loads =
        (\<lambda>s. if s = example_payload then Some (JObj [(''csrfToken'', JStr ''x'')])
             else if s = numeric_payload then Some (JObj [(''csrfToken'', JNum 123)])
             else if s = blank_payload then Some (JObj [(''csrfToken'', JStr '' x'')])
             else if s = ''{}'' then Some (JObj [])
             else if s = ''[]'' then Some (JArr [])
             else if s = quoted ''x'' then Some (JStr ''x'')
             else if s = ''1'' then Some (JNum 1)
             else if s = ''null'' then Some JNull
             else None)\<rparr>"

definition filter_lowercase :: content_filter where
  "filter_lowercase =
     \<lparr>cf_id = Some ''id0'', cf_name = Some ''samsung adblock'',
      cf_block_list = Some [''x.com''], cf_other = []\<rparr>"

definition filter_samsung :: content_filter where
  "filter_samsung =
     \<lparr>cf_id = Some ''id1'', cf_name = Some ''Samsung Adblock'',
      cf_block_list = Some [''b.com'', ''a.com''], cf_other = [(''enabled'', JBool True)]\<rparr>"

definition filter_second :: content_filter where
  "filter_second =
     \<lparr>cf_id = Some ''id2'', cf_name = Some ''Samsung Adblock'',
      cf_block_list = Some [], cf_other = []\<rparr>"

definition filter_legacy :: content_filter where
  "filter_legacy =
     \<lparr>cf_id = Some ''id3'', cf_name = Some ''Legacy'',
      cf_block_list = Some [''old.com''], cf_other = []\<rparr>"

definition filter_no_list :: content_filter where
  "filter_no_list =
     \<lparr>cf_id = Some ''id4'', cf_name = Some ''Fresh'',
      cf_block_list = None, cf_other = [(''enabled'', JBool False)]\<rparr>"

definition example_filters :: "content_filter list" where
  "example_filters =
     [filter_lowercase, filter_samsung, filter_second, filter_legacy, filter_no_list]"

definition example_controller :: controller where
  "example_controller =
     \<lparr>login_reply = Response 200 (Some ''h.eyJjc3JmVG9rZW4iOiJ4In0.s''),
      filters_reply = Response 200 example_filters,
      update_reply = Response 200 ()\<rparr>"

text \<open>The same controller answering the login with another status code.\<close>

definition controller_login_status :: "nat \<Rightarrow> controller" where
  "controller_login_status status =
     example_controller\<lparr>login_reply := Response status None\<rparr>"

text \<open>
  The same controller setting a cookie whose payload holds the number 123 as token, and
  one whose payload holds a string that starts with a blank.
\<close>

definition controller_numeric_token :: controller where
  "controller_numeric_token =
     example_controller\<lparr>login_reply := Response 200 (Some ''h.eyJjc3JmVG9rZW4iOjEyM30.s'')\<rparr>"

definition controller_blank_token :: controller where
  "controller_blank_token =
     example_controller\<lparr>login_reply := Response 200 (Some ''h.eyJjc3JmVG9rZW4iOiIgeCJ9.s'')\<rparr>"

text \<open>A filter file with comments, blank lines, padded and repeated domains.\<close>

definition example_text :: string where
  "example_text = ''# title'' @ [LF] @ [LF] @ ''  b.com  '' @ [CR, LF] @ ''a.com'' @ [LF]
     @ ''   # indented comment'' @ [LF] @ ''b.com'' @ [LF] @ ''a b #c''"

text \<open>A filter file of comments and blank lines only.\<close>

definition comments_only :: string where
  "comments_only = ''# Samsung Adblock'' @ [LF] @ ''   '' @ [LF] @ [LF] @ ''  # a.com'' @ [LF]"

lemmas example_defs =
  example_config_def example_codecs_def example_payload_def numeric_payload_def
  blank_payload_def quoted_def
  filter_lowercase_def filter_samsung_def filter_second_def filter_legacy_def
  filter_no_list_def example_filters_def example_controller_def controller_login_status_def
  controller_numeric_token_def controller_blank_token_def

section \<open>Lemmas on the client\<close>

lemma find_in_none: "find_in fs n = None \<longleftrightarrow> (\<forall>f \<in> set fs. cf_name f \<noteq> Some n)"
  by (induction fs) auto

lemma find_in_first:
  "\<forall>g \<in> set pre. cf_name g \<noteq> Some n \<Longrightarrow> cf_name f = Some n \<Longrightarrow> find_in (pre @ f # post) n = Some f"
  by (induction pre) auto

lemma find_in_some_name: "find_in fs n = Some f \<Longrightarrow> cf_name f = Some n"
  by (induction fs) (auto split: if_splits)

lemma find_filter_ok:
  "filters_reply ctl = Response status fs \<Longrightarrow> \<not> (400 \<le> status \<and> status < 600) \<Longrightarrow>
   find_filter cfg ctl n s = (Inr (find_in fs n), send (GET (filters_url cfg)) s)"
  by (simp add: find_filter_def get_content_filters_def raise_for_status_def Let_def)

lemma find_filter_state:
  "snd (find_filter cfg ctl n s) = send (GET (filters_url cfg)) s"
  by (auto simp: find_filter_def get_content_filters_def raise_for_status_def Let_def split: response.splits if_splits prod.splits sum.splits)

lemma find_filter_some:
  "fst (find_filter cfg ctl n s) = Inr (Some f) \<Longrightarrow> cf_name f = Some n"
  by (auto simp: find_filter_def get_content_filters_def raise_for_status_def Let_def find_in_some_name split: response.splits if_splits prod.splits sum.splits)

lemma named_not_empty: "cf_name f = Some n \<Longrightarrow> \<not> is_empty_dict f"
  by (simp add: is_empty_dict_def)

lemma update_not_found:
  "fst (find_filter cfg ctl n s) = Inr None \<Longrightarrow>
   update_content_filters cfg ctl n ds s =
     (Inr False, print_err (Filter_Not_Found n) (send (GET (filters_url cfg)) s))"
  using find_filter_state [of cfg ctl n s]
  by (cases "find_filter cfg ctl n s") (simp add: update_content_filters_def not_filter_def)



lemma trailing_LF_illegal: "is_illegal_header_value (t @ [LF])"
  by (induction t rule: is_illegal_header_value.induct) auto

lemma unusable_token_headers:
  assumes "\<not> usable_token tok"
  shows "check_headers (if truthy tok then [(name, tok)] else []) \<noteq> None"
proof (cases tok)
  case (JStr t)
  then have ne: "t \<noteq> []" and bad: "isspace (hd t) \<or> LF \<in> set t \<or> CR \<in> set t"
    using assms by auto
  have "is_illegal_header_value t" if m: "header_value_matches t"
  proof (cases "t = [LF]")
    case True
    then show ?thesis by simp
  next
    case False
    let ?r = "tl t"
    let ?body = "if ?r \<noteq> [] \<and> last ?r = LF then butlast ?r else ?r"
    have first: "\<not> isspace (hd t)" and body: "LF \<notin> set ?body" "CR \<notin> set ?body"
      using m ne False by (auto simp: header_value_matches_def Let_def)
    have "hd t \<noteq> LF" "hd t \<noteq> CR"
      using first by (auto simp: isspace_def)
    then have "LF \<in> set ?r \<or> CR \<in> set ?r"
      using bad first ne by (cases t) auto
    then have "?r \<noteq> [] \<and> last ?r = LF"
      using body by (auto split: if_splits)
    then have "?r = butlast ?r @ [LF]"
      using append_butlast_last_id [of ?r] by simp
    moreover have "t = hd t # ?r"
      using ne by simp
    ultimately have "t = (hd t # butlast ?r) @ [LF]"
      by simp
    then show ?thesis
      using trailing_LF_illegal [of "hd t # butlast ?r"] by simp
  qed
  then show ?thesis using JStr ne by auto
qed (use assms in simp_all)


lemma sent_print_err [simp]: "sent (print_err d s) = sent s"
  by (simp add: print_err_def)

lemma stderr_print_err [simp]: "stderr (print_err d s) = stderr s @ [d]"
  by (simp add: print_err_def)

lemma sent_send [simp]: "sent (send r s) = sent s @ [r]"
  by (simp add: send_def)

lemma stderr_send [simp]: "stderr (send r s) = stderr s"
  by (simp add: send_def)

lemma init_state_simps [simp]:
  "sent (init_state fs) = []" "stderr (init_state fs) = []" "stdout (init_state fs) = []"
  "files (init_state fs) = fs" "csrf_token (init_state fs) = JNull"
  by (simp_all add: init_state_def)

lemma cookies_get_simps:
  "cookies_get [] = Inr None"
  "cookies_get [c] = (if c = [] then Inr None else Inr (Some c))"
  "cookies_get (c # c' # jar) = Inl CookieConflictError"
  by (simp_all add: cookies_get_def)

lemma extract_frame [simp]:
  "sent (snd (extract_csrf_token cd jar s)) = sent s"
  "stdout (snd (extract_csrf_token cd jar s)) = stdout s"
  "files (snd (extract_csrf_token cd jar s)) = files s"
  by (simp_all add: extract_csrf_token_def print_err_def split: option.splits sum.splits)

lemma extract_session_cookies:
  "\<exists>v. fst (extract_csrf_token cd (session_cookies cookie) s) = Inr v"
  by (cases cookie)
     (simp_all add: session_cookies_def extract_csrf_token_def cookies_get_simps
        split: sum.splits)

lemma print_err_frame [simp]:
  "stdout (print_err d s) = stdout s" "files (print_err d s) = files s"
  "csrf_token (print_err d s) = csrf_token s"
  by (simp_all add: print_err_def)

lemma send_frame [simp]:
  "stdout (send r s) = stdout s" "files (send r s) = files s"
  "csrf_token (send r s) = csrf_token s"
  by (simp_all add: send_def)

lemma pad_payload_shape:
  "length (pad_payload p) mod 4 = 0 \<and> (\<exists>k<4. pad_payload p = p @ replicate k CHR ''='')"
proof (cases "length p mod 4 = 0")
  case True
  then have "pad_payload p = p @ replicate 0 CHR ''=''"
    by (simp add: pad_payload_def Let_def)
  then show ?thesis using True by auto
next
  case False
  then have eq: "pad_payload p = p @ replicate (4 - length p mod 4) CHR ''=''"
    by (simp add: pad_payload_def Let_def)
  have "(length p + (4 - length p mod 4)) mod 4 = 0"
    by presburger
  moreover have "4 - length p mod 4 < 4"
    using False by simp
  ultimately show ?thesis using eq by auto
qed

lemma extract_well_formed:
  assumes "split_on CHR ''.'' c = [h, p, sg]"
  shows "fst (extract_csrf_token cd [c] s) =
    (case urlsafe_b64decode (pad_payload p) of
       Inl e \<Rightarrow> Inr JNull
     | Inr decoded \<Rightarrow>
         (case json_loads cd decoded of
            Some (JObj payload_data) \<Rightarrow>
              (case map_of payload_data ''csrfToken'' of None \<Rightarrow> Inr JNull | Some v \<Rightarrow> Inr v)
          | _ \<Rightarrow> Inr JNull))"
proof -
  have "c \<noteq> []" using assms by auto
  then show ?thesis
    using assms
    by (simp add: extract_csrf_token_def cookies_get_simps csrf_try_def Let_def
          split: option.splits json.splits sum.splits)
qed

lemma extract_wrong_parts:
  assumes "length (split_on CHR ''.'' c) \<noteq> 3"
  shows "fst (extract_csrf_token cd [c] s) = Inr JNull"
  using assms by (simp add: extract_csrf_token_def cookies_get_simps csrf_try_def Let_def)

lemma extract_no_cookie: "fst (extract_csrf_token cd [] s) = Inr JNull"
  by (simp add: extract_csrf_token_def cookies_get_simps)

lemma extract_two_cookies:
  "fst (extract_csrf_token cd (c # c' # jar) s) = Inl CookieConflictError"
  by (simp add: extract_csrf_token_def cookies_get_simps)

lemma a2b_loop_skips:
  "\<forall>x \<in> set junk. x \<noteq> CHR ''='' \<and> table_a2b_base64 x = None \<Longrightarrow>
   a2b_loop quad_pos leftchar pads bin_data (junk @ rest)
     = a2b_loop quad_pos leftchar pads bin_data rest"
  by (induction junk) simp_all

lemma not_object_cases:
  "\<not> is_object j \<Longrightarrow> (case j of JObj payload_data \<Rightarrow> a payload_data | _ \<Rightarrow> b) = b"
  by (cases j) simp_all

lemma login_rejected:
  assumes "login_reply ctl = Response status cookie" "400 \<le> status" "status < 600"
  shows "login cfg cd ctl s =
    (Inl RequestException,
     send (POST (client_host cfg @ ''/api/auth/login'') (UNIFI_USERNAME cfg, UNIFI_PASSWORD cfg)) s)"
  using assms by (simp add: login_def Let_def raise_for_status_def)

lemma login_result: "fst (login cfg cd ctl s) = Inr () \<or> fst (login cfg cd ctl s) = Inl RequestException"
proof (cases "login_reply ctl")
  case Transport_Failure
  then show ?thesis by (simp add: login_def Let_def)
next
  case (Response status cookie)
  let ?s1 = "send (POST (client_host cfg @ ''/api/auth/login'')
      (UNIFI_USERNAME cfg, UNIFI_PASSWORD cfg)) s"
  obtain v where "fst (extract_csrf_token cd (session_cookies cookie) ?s1) = Inr v"
    using extract_session_cookies by blast
  then show ?thesis
    using Response
    by (cases "extract_csrf_token cd (session_cookies cookie) ?s1")
       (simp add: login_def Let_def raise_for_status_def)
qed

lemma login_frame [simp]:
  "sent (snd (login cfg cd ctl s))
     = sent s @ [POST (client_host cfg @ ''/api/auth/login'') (UNIFI_USERNAME cfg, UNIFI_PASSWORD cfg)]"
  "stdout (snd (login cfg cd ctl s)) = stdout s"
  "files (snd (login cfg cd ctl s)) = files s"
proof -
  let ?s1 = "send (POST (client_host cfg @ ''/api/auth/login'')
      (UNIFI_USERNAME cfg, UNIFI_PASSWORD cfg)) s"
  have frame: "sent (snd (extract_csrf_token cd jar ?s1)) = sent ?s1"
    "stdout (snd (extract_csrf_token cd jar ?s1)) = stdout ?s1"
    "files (snd (extract_csrf_token cd jar ?s1)) = files ?s1" for jar
    by simp_all
  have "sent (snd (login cfg cd ctl s)) = sent ?s1
      \<and> stdout (snd (login cfg cd ctl s)) = stdout ?s1
      \<and> files (snd (login cfg cd ctl s)) = files ?s1"
  proof (cases "login_reply ctl")
    case Transport_Failure
    then show ?thesis by (simp add: login_def Let_def)
  next
    case (Response status cookie)
    show ?thesis
      using Response frame [of "session_cookies cookie"]
      by (cases "extract_csrf_token cd (session_cookies cookie) ?s1")
         (auto simp: login_def Let_def raise_for_status_def print_err_def split: sum.splits)
  qed
  then show "sent (snd (login cfg cd ctl s))
     = sent s @ [POST (client_host cfg @ ''/api/auth/login'') (UNIFI_USERNAME cfg, UNIFI_PASSWORD cfg)]"
    "stdout (snd (login cfg cd ctl s)) = stdout s"
    "files (snd (login cfg cd ctl s)) = files s"
    by simp_all
qed

lemma login_failed_stderr:
  "fst (login cfg cd ctl s) = Inl RequestException \<Longrightarrow>
   stderr (snd (login cfg cd ctl s)) = stderr s"
proof (cases "login_reply ctl")
  case Transport_Failure
  then show ?thesis by (simp add: login_def Let_def)
next
  case (Response status cookie)
  let ?s1 = "send (POST (client_host cfg @ ''/api/auth/login'')
      (UNIFI_USERNAME cfg, UNIFI_PASSWORD cfg)) s"
  assume failed: "fst (login cfg cd ctl s) = Inl RequestException"
  obtain v where "fst (extract_csrf_token cd (session_cookies cookie) ?s1) = Inr v"
    using extract_session_cookies by blast
  then show ?thesis
    using Response failed
    by (cases "extract_csrf_token cd (session_cookies cookie) ?s1")
       (auto simp: login_def Let_def raise_for_status_def split: if_splits)
qed

section \<open>Lemmas on the file codec\<close>

lemma read_loop_filter:
  "read_loop acc ls = acc @ filter (\<lambda>l. l \<noteq> [] \<and> hd l \<noteq> CHR ''#'') (map strip ls)"
proof (induction ls arbitrary: acc)
  case Nil
  show ?case by simp
next
  case (Cons l ls)
  have sw: "startswith (strip l) ''#'' \<longleftrightarrow> strip l \<noteq> [] \<and> hd (strip l) = CHR ''#''"
    by (cases "strip l") (simp_all add: startswith_def)
  show ?case using Cons.IH sw by (auto simp: Let_def)
qed

lemma read_missing_file:
  "files s filepath = None \<Longrightarrow> fst (read_filter_file filepath silent s) = []"
  by (simp add: read_filter_file_def)

lemma read_existing_file:
  "files s filepath = Some text \<Longrightarrow>
   fst (read_filter_file filepath silent s)
     = filter (\<lambda>l. l \<noteq> [] \<and> hd l \<noteq> CHR ''#'') (map strip (file_lines text))"
  by (simp add: read_filter_file_def Let_def read_loop_filter)

lemma read_frame [simp]:
  "sent (snd (read_filter_file p silent s)) = sent s"
  "stdout (snd (read_filter_file p silent s)) = stdout s"
  "files (snd (read_filter_file p silent s)) = files s"
  by (simp_all add: read_filter_file_def Let_def split: option.splits)

lemma print_loop_text: "print_loop ds s = s\<lparr>stdout := stdout s @ one_per_line ds\<rparr>"
  by (induction ds arbitrary: s) (simp_all add: one_per_line_def)

lemma write_loop_text: "write_loop start ds = start @ one_per_line ds"
  by (induction ds arbitrary: start) (simp_all add: one_per_line_def)

lemma isspace_simps [simp]:
  "isspace LF" "isspace CR" "\<not> isspace CHR ''#''" "isspace CHR '' ''"
  by (simp_all add: isspace_def)

lemma dropWhile_snoc_keep: "\<not> P x \<Longrightarrow> dropWhile P (ys @ [x]) = dropWhile P ys @ [x]"
  by (induction ys) simp_all

lemma dropWhile_keep_all: "xs \<noteq> [] \<Longrightarrow> \<not> P (hd xs) \<Longrightarrow> dropWhile P xs = xs"
  by (cases xs) simp_all

lemma strip_keeps_first:
  "\<not> isspace x \<Longrightarrow> strip (x # xs) = x # rev (dropWhile isspace (rev xs))"
  by (simp add: strip_def dropWhile_snoc_keep)

lemma strip_comment_line: "strip (CHR ''#'' # xs) \<noteq> [] \<and> hd (strip (CHR ''#'' # xs)) = CHR ''#''"
  by (simp add: strip_keeps_first)

lemma strip_blank_line: "strip [LF] = []"
  by (simp add: strip_def)

lemma strip_clean_line:
  assumes "clean_domain d"
  shows "strip (d @ [LF]) = d"
proof -
  from assms obtain x xs where d: "d = x # xs" and x: "\<not> isspace x"
    by (cases d) (auto simp: clean_domain_def)
  have last: "\<not> isspace (last d)" and ne: "d \<noteq> []"
    using assms by (simp_all add: clean_domain_def)
  have "rev d \<noteq> []" and "\<not> isspace (hd (rev d))"
    using ne last by (simp_all add: hd_rev)
  then have keep: "dropWhile isspace (rev d) = rev d"
    by (rule dropWhile_keep_all)
  have "dropWhile isspace (d @ [LF]) = d @ [LF]"
    using d x by simp
  then have "strip (d @ [LF]) = rev (dropWhile isspace (LF # rev d))"
    by (simp add: strip_def)
  also have "\<dots> = rev (dropWhile isspace (rev d))"
    by simp
  also have "\<dots> = d"
    by (simp add: keep)
  finally show ?thesis .
qed

lemma universal_newlines_no_CR: "CR \<notin> set t \<Longrightarrow> universal_newlines t = t"
  by (induction t rule: universal_newlines.induct) auto

lemma iter_lines_line:
  "LF \<notin> set l \<Longrightarrow> iter_lines cur (l @ LF # rest) = (cur @ l @ [LF]) # iter_lines [] rest"
  by (induction l arbitrary: cur) auto

lemma iter_lines_one_per_line:
  "\<forall>d \<in> set ds. LF \<notin> set d \<Longrightarrow> iter_lines [] (one_per_line ds) = map (\<lambda>d. d @ [LF]) ds"
proof (induction ds)
  case Nil
  show ?case by (simp add: one_per_line_def)
next
  case (Cons d ds)
  have "one_per_line (d # ds) = d @ LF # one_per_line ds"
    by (simp add: one_per_line_def)
  then show ?case
    using Cons by (simp add: iter_lines_line)
qed

lemma file_header_lines:
  "file_header n = (''# '' @ n) @ LF # header_line2 @ LF # header_line3 @ LF # [] @ LF # []"
  by (simp add: file_header_def header_line2_def header_line3_def)

lemma header_no_breaks:
  "LF \<notin> set header_line2" "LF \<notin> set header_line3" "CR \<notin> set header_line2" "CR \<notin> set header_line3"
  by (simp_all add: header_line2_def header_line3_def)

lemma header_hash: "\<exists>xs. header_line2 @ [LF] = CHR ''#'' # xs" "\<exists>xs. header_line3 @ [LF] = CHR ''#'' # xs"
  by (simp_all add: header_line2_def header_line3_def)

lemma iter_lines_file:
  assumes "LF \<notin> set n" "\<forall>d \<in> set ds. LF \<notin> set d"
  shows "iter_lines [] (file_header n @ one_per_line ds)
     = [(''# '' @ n) @ [LF], header_line2 @ [LF], header_line3 @ [LF], [LF]] @ map (\<lambda>d. d @ [LF]) ds"
proof -
  have l1: "LF \<notin> set (''# '' @ n)"
    using assms(1) by simp
  let ?r3 = "LF # one_per_line ds"
  let ?r2 = "header_line3 @ LF # ?r3"
  let ?r1 = "header_line2 @ LF # ?r2"
  have s1: "iter_lines [] ((''# '' @ n) @ LF # ?r1) = ((''# '' @ n) @ [LF]) # iter_lines [] ?r1"
    using iter_lines_line [OF l1, of "[]" "?r1"] by (simp only: append_Nil)
  have s2: "iter_lines [] ?r1 = (header_line2 @ [LF]) # iter_lines [] ?r2"
    using iter_lines_line [OF header_no_breaks(1), of "[]" "?r2"] by (simp only: append_Nil)
  have s3: "iter_lines [] ?r2 = (header_line3 @ [LF]) # iter_lines [] ?r3"
    using iter_lines_line [OF header_no_breaks(2), of "[]" "?r3"] by (simp only: append_Nil)
  have s4: "iter_lines [] ?r3 = [LF] # iter_lines [] (one_per_line ds)"
    by simp
  have "file_header n @ one_per_line ds = (''# '' @ n) @ LF # ?r1"
    by (simp add: file_header_lines)
  then have "iter_lines [] (file_header n @ one_per_line ds)
      = ((''# '' @ n) @ [LF]) # (header_line2 @ [LF]) # (header_line3 @ [LF]) # [LF]
        # iter_lines [] (one_per_line ds)"
    by (simp only: s1 s2 s3 s4)
  then show ?thesis
    using assms(2) by (simp add: iter_lines_one_per_line)
qed

lemma read_loop_clean:
  "\<forall>d \<in> set ds. clean_domain d \<Longrightarrow>
   filter (\<lambda>l. l \<noteq> [] \<and> hd l \<noteq> CHR ''#'') (map strip (map (\<lambda>d. d @ [LF]) ds)) = ds"
proof (induction ds)
  case Nil
  show ?case by simp
next
  case (Cons d ds)
  have "clean_domain d" using Cons.prems by simp
  then have "strip (d @ [LF]) = d" "d \<noteq> []" "hd d \<noteq> CHR ''#''"
    by (simp_all add: strip_clean_line clean_domain_def)
  then show ?case using Cons by simp
qed

section \<open>Lemmas on the commands\<close>

lemma main_login_failed:
  assumes "fst (login cfg cd ctl s) = Inl RequestException"
  shows "main cfg cd ctl a s = (Exit 1, print_err Request_Error (snd (login cfg cd ctl s)))"
  using assms by (cases "login cfg cd ctl s") (simp add: main_def main_try_def)

lemma main_login_ok:
  assumes "fst (login cfg cd ctl s) = Inr ()"
  shows "main_try cfg cd ctl a s =
     (case a of
        Fetch filter_name output \<Rightarrow> fetch_command cfg ctl filter_name output (snd (login cfg cd ctl s))
      | Sync filter_name file \<Rightarrow> sync_command cfg ctl filter_name file (snd (login cfg cd ctl s)))"
  using assms by (cases "login cfg cd ctl s") (simp add: main_try_def split: args.splits)

lemma sync_nothing_to_sync:
  assumes "fst (read_filter_file file False s) = []"
  shows "sync_command cfg ctl filter_name file s
     = (Inl (SystemExit 1), print_err No_Domains (snd (read_filter_file file False s)))"
  using assms by (cases "read_filter_file file False s") (simp add: sync_command_def)

lemma fetch_found:
  assumes "fst (find_filter cfg ctl n s) = Inr (Some f)"
  shows "fetch_command cfg ctl n output s =
     (let domains = (case cf_block_list f of None \<Rightarrow> [] | Some ds \<Rightarrow> ds);
          s2 = print_err (Fetched (length domains)) (send (GET (filters_url cfg)) s)
      in case (if output = Some [] then None else output) of
           Some path \<Rightarrow> (Inr (), write_filter_file path domains n s2)
         | None \<Rightarrow> (Inr (), print_loop (sort domains) s2))"
proof -
  have ne: "\<not> is_empty_dict f"
    using assms find_filter_some named_not_empty by blast
  show ?thesis
    using assms ne find_filter_state [of cfg ctl n s]
    by (cases "find_filter cfg ctl n s") (simp add: fetch_command_def not_filter_def)
qed

lemma main_fetch_found:
  assumes "fst (login cfg cd ctl s) = Inr ()"
      and "fst (find_filter cfg ctl n (snd (login cfg cd ctl s))) = Inr (Some f)"
  shows "main cfg cd ctl (Fetch n output) s =
     (Exit 0,
      (let domains = (case cf_block_list f of None \<Rightarrow> [] | Some ds \<Rightarrow> ds);
           s2 = print_err (Fetched (length domains))
                  (send (GET (filters_url cfg)) (snd (login cfg cd ctl s)))
       in case (if output = Some [] then None else output) of
            Some path \<Rightarrow> write_filter_file path domains n s2
          | None \<Rightarrow> print_loop (sort domains) s2))"
  by (simp add: main_def main_login_ok [OF assms(1)] fetch_found [OF assms(2)] Let_def
      split: option.splits)

lemma example_decoded:
  "urlsafe_b64decode (pad_payload ''eyJjc3JmVG9rZW4iOiJ4In0'') = Inr example_payload"
  "urlsafe_b64decode (pad_payload ''eyJjc3JmVG9rZW4iOjEyM30'') = Inr numeric_payload"
  "urlsafe_b64decode (pad_payload ''eyJjc3JmVG9rZW4iOiIgeCJ9'') = Inr blank_payload"
  by code_simp+

lemma example_login:
  "login example_config example_codecs example_controller (init_state fs)
     = (Inr (), (init_state fs)
         \<lparr>csrf_token := JStr ''x'',
          sent := [POST ''https://unifi.local/api/auth/login'' (''admin'', ''password'')],
          stderr := [Logged_In True]\<rparr>)"
proof -
  have "fst (extract_csrf_token example_codecs [''h.eyJjc3JmVG9rZW4iOiJ4In0.s''] s) = Inr (JStr ''x'')"
    and "snd (extract_csrf_token example_codecs [''h.eyJjc3JmVG9rZW4iOiJ4In0.s''] s) = s" for s
    by (simp_all add: extract_csrf_token_def cookies_get_simps csrf_try_def example_decoded
        example_codecs_def)
  then have "extract_csrf_token example_codecs [''h.eyJjc3JmVG9rZW4iOiJ4In0.s''] s
      = (Inr (JStr ''x''), s)" for s
    by (simp add: prod_eq_iff)
  then show ?thesis
    by (simp add: login_def raise_for_status_def session_cookies_def Let_def client_host_def
        rstrip_char_def send_def print_err_def init_state_def example_config_def
        example_controller_def)
qed



lemma example_find:
  "fst (find_filter example_config example_controller ''Samsung Adblock'' s) = Inr (Some filter_samsung)"
  "fst (find_filter example_config example_controller ''Fresh'' s) = Inr (Some filter_no_list)"
  by (simp_all add: find_filter_def get_content_filters_def raise_for_status_def example_defs)

section \<open>The anti-forgery token\<close>

text \<open>
  C6, as amended. With one cookie named \<open>TOKEN\<close> in the session: a cookie of three
  dot-separated parts whose middle part, padded with \<open>=\<close> to a multiple of four
  characters, \<open>urlsafe_b64decode\<close> decodes to bytes that are a JSON object with the key
  \<open>csrfToken\<close> gives that key's value. With no such cookie, with another number of
  parts, with a middle part that \<open>urlsafe_b64decode\<close> refuses, with bytes that the JSON
  decoder refuses, with a JSON value that is not an object, and with an object without
  the key, the function returns \<open>None\<close>; in all these cases it returns and does not
  raise. As stated, for every cookie whose middle part is not valid base64, the claim
  fails: the decoder skips the characters outside the alphabet, so a payload with such
  characters in it still gives its token.
\<close>

theorem extract_csrf_token_cases:
  "(split_on CHR ''.'' c = [h, p, sg]
      \<and> urlsafe_b64decode (pad_payload p) = Inr decoded
      \<and> json_loads cd decoded = Some (JObj payload_data)
      \<and> map_of payload_data ''csrfToken'' = Some v
      \<longrightarrow> fst (extract_csrf_token cd [c] s) = Inr v)
   \<and> fst (extract_csrf_token cd [] s) = Inr JNull
   \<and> (length (split_on CHR ''.'' c) \<noteq> 3
      \<longrightarrow> fst (extract_csrf_token cd [c] s) = Inr JNull)
   \<and> (split_on CHR ''.'' c = [h, p, sg]
      \<and> urlsafe_b64decode (pad_payload p) = Inl e
      \<longrightarrow> fst (extract_csrf_token cd [c] s) = Inr JNull)
   \<and> (split_on CHR ''.'' c = [h, p, sg]
      \<and> urlsafe_b64decode (pad_payload p) = Inr decoded
      \<and> json_loads cd decoded = None
      \<longrightarrow> fst (extract_csrf_token cd [c] s) = Inr JNull)
   \<and> (split_on CHR ''.'' c = [h, p, sg]
      \<and> urlsafe_b64decode (pad_payload p) = Inr decoded
      \<and> json_loads cd decoded = Some j \<and> \<not> is_object j
      \<longrightarrow> fst (extract_csrf_token cd [c] s) = Inr JNull)
   \<and> (split_on CHR ''.'' c = [h, p, sg]
      \<and> urlsafe_b64decode (pad_payload p) = Inr decoded
      \<and> json_loads cd decoded = Some (JObj payload_data)
      \<and> map_of payload_data ''csrfToken'' = None
      \<longrightarrow> fst (extract_csrf_token cd [c] s) = Inr JNull)
   \<and> length (pad_payload p) mod 4 = 0
   \<and> (\<exists>k<4. pad_payload p = p @ replicate k CHR ''='')"
proof -
  have "fst (extract_csrf_token cd [c] s) = Inr JNull"
    if "split_on CHR ''.'' c = [h, p, sg]"
      and "urlsafe_b64decode (pad_payload p) = Inr decoded"
      and "json_loads cd decoded = Some j" and "\<not> is_object j"
    using that by (simp add: extract_well_formed not_object_cases)
  then show ?thesis
    using pad_payload_shape [of p]
    by (auto simp: extract_well_formed extract_wrong_parts extract_no_cookie)
qed

theorem extract_csrf_token_cases_witness:
  "fst (extract_csrf_token example_codecs [''h.eyJjc3JmVG9rZW4iOiJ4In0.s''] (init_state Map.empty))
     = Inr (JStr ''x'')
   \<and> pad_payload ''eyJjc3JmVG9rZW4iOiJ4In0'' = ''eyJjc3JmVG9rZW4iOiJ4In0=''
   \<and> fst (extract_csrf_token example_codecs [] (init_state Map.empty)) = Inr JNull
   \<and> fst (extract_csrf_token example_codecs [''h.eyJjc3JmVG9rZW4iOiJ4In0''] (init_state Map.empty))
     = Inr JNull
   \<and> fst (extract_csrf_token example_codecs [''h.e.s''] (init_state Map.empty)) = Inr JNull
   \<and> fst (extract_csrf_token example_codecs [''h.eA.s''] (init_state Map.empty)) = Inr JNull
   \<and> fst (extract_csrf_token example_codecs [''h.MQ.s''] (init_state Map.empty)) = Inr JNull
   \<and> fst (extract_csrf_token example_codecs [''h.Ingi.s''] (init_state Map.empty)) = Inr JNull
   \<and> fst (extract_csrf_token example_codecs [''h.W10.s''] (init_state Map.empty)) = Inr JNull
   \<and> fst (extract_csrf_token example_codecs [''h.e30.s''] (init_state Map.empty)) = Inr JNull"
proof -
  note t = extract_csrf_token_cases [where cd = example_codecs and s = "init_state Map.empty"
      and h = "''h''" and sg = "''s''"]
  have dec: "urlsafe_b64decode (pad_payload ''e'') = Inl Binascii_Error"
    "urlsafe_b64decode (pad_payload ''eA'') = Inr ''x''"
    "urlsafe_b64decode (pad_payload ''MQ'') = Inr ''1''"
    "urlsafe_b64decode (pad_payload ''Ingi'') = Inr (quoted ''x'')"
    "urlsafe_b64decode (pad_payload ''W10'') = Inr ''[]''"
    "urlsafe_b64decode (pad_payload ''e30'') = Inr ''{}''"
    by code_simp+
  have loads: "json_loads example_codecs example_payload = Some (JObj [(''csrfToken'', JStr ''x'')])"
    "json_loads example_codecs ''x'' = None"
    "json_loads example_codecs ''1'' = Some (JNum 1)"
    "json_loads example_codecs (quoted ''x'') = Some (JStr ''x'')"
    "json_loads example_codecs ''[]'' = Some (JArr [])"
    "json_loads example_codecs ''{}'' = Some (JObj [])"
    by (simp_all add: example_codecs_def example_payload_def numeric_payload_def
        blank_payload_def quoted_def)
  have 1: "fst (extract_csrf_token example_codecs [''h.eyJjc3JmVG9rZW4iOiJ4In0.s'']
      (init_state Map.empty)) = Inr (JStr ''x'')"
    using t [where c = "''h.eyJjc3JmVG9rZW4iOiJ4In0.s''" and p = "''eyJjc3JmVG9rZW4iOiJ4In0''"
        and decoded = example_payload and payload_data = "[(''csrfToken'', JStr ''x'')]"
        and v = "JStr ''x''"]
    by (simp add: example_decoded loads)
  have 2: "pad_payload ''eyJjc3JmVG9rZW4iOiJ4In0'' = ''eyJjc3JmVG9rZW4iOiJ4In0=''"
    by code_simp
  have 3: "fst (extract_csrf_token example_codecs [] (init_state Map.empty)) = Inr JNull"
    using t by simp
  have 4: "fst (extract_csrf_token example_codecs [''h.eyJjc3JmVG9rZW4iOiJ4In0'']
      (init_state Map.empty)) = Inr JNull"
    using t [where c = "''h.eyJjc3JmVG9rZW4iOiJ4In0''"] by simp
  have 5: "fst (extract_csrf_token example_codecs [''h.e.s''] (init_state Map.empty)) = Inr JNull"
    using t [where c = "''h.e.s''" and p = "''e''" and e = Binascii_Error]
    by (simp add: dec)
  have 6: "fst (extract_csrf_token example_codecs [''h.eA.s''] (init_state Map.empty)) = Inr JNull"
    using t [where c = "''h.eA.s''" and p = "''eA''" and decoded = "''x''"]
    by (simp add: dec loads)
  have 7: "fst (extract_csrf_token example_codecs [''h.MQ.s''] (init_state Map.empty)) = Inr JNull"
    using t [where c = "''h.MQ.s''" and p = "''MQ''" and decoded = "''1''" and j = "JNum 1"]
    by (simp add: dec loads)
  have 8: "fst (extract_csrf_token example_codecs [''h.Ingi.s''] (init_state Map.empty)) = Inr JNull"
    using t [where c = "''h.Ingi.s''" and p = "''Ingi''" and decoded = "quoted ''x''"
        and j = "JStr ''x''"]
    by (simp add: dec loads)
  have 9: "fst (extract_csrf_token example_codecs [''h.W10.s''] (init_state Map.empty)) = Inr JNull"
    using t [where c = "''h.W10.s''" and p = "''W10''" and decoded = "''[]''" and j = "JArr []"]
    by (simp add: dec loads)
  have 10: "fst (extract_csrf_token example_codecs [''h.e30.s''] (init_state Map.empty)) = Inr JNull"
    using t [where c = "''h.e30.s''" and p = "''e30''" and decoded = "''{}''"
        and payload_data = "[]"]
    by (simp add: dec loads)
  show ?thesis
    using 1 2 3 4 5 6 7 8 9 10 by simp
qed

theorem extract_invalid_base64_counterexample:
  "fst (extract_csrf_token example_codecs [''h.eyJj!!!!c3JmVG9rZW4iOiJ4In0.s'']
          (init_state Map.empty)) = Inr (JStr ''x'')
   \<and> split_on CHR ''.'' ''h.eyJj!!!!c3JmVG9rZW4iOiJ4In0.s''
      = [''h'', ''eyJj!!!!c3JmVG9rZW4iOiJ4In0'', ''s'']
   \<and> table_a2b_base64 (urlsafe_translate CHR ''!'') = None
   \<and> urlsafe_b64decode (pad_payload ''eyJj!!!!c3JmVG9rZW4iOiJ4In0'') = Inr example_payload"
proof -
  have parts: "split_on CHR ''.'' ''h.eyJj!!!!c3JmVG9rZW4iOiJ4In0.s''
      = [''h'', ''eyJj!!!!c3JmVG9rZW4iOiJ4In0'', ''s'']"
    by simp
  have dec: "urlsafe_b64decode (pad_payload ''eyJj!!!!c3JmVG9rZW4iOiJ4In0'') = Inr example_payload"
    by code_simp
  have skipped: "table_a2b_base64 (urlsafe_translate CHR ''!'') = None"
    by code_simp
  have "fst (extract_csrf_token example_codecs [''h.eyJj!!!!c3JmVG9rZW4iOiJ4In0.s'']
          (init_state Map.empty)) = Inr (JStr ''x'')"
    by (simp add: extract_well_formed [OF parts] dec example_codecs_def)
  then show ?thesis
    using parts dec skipped by simp
qed

section \<open>Logging in\<close>

text \<open>
  C7, as amended. A response to the login request with a status code from 400 to 599 makes
  \<open>login\<close> raise, and the run ends with exit status 1 after that one request, having
  printed the error line. As stated, for every status code outside 200 to 299, the claim
  fails: \<open>raise_for_status\<close> lets the other status codes pass, so a 304 logs in.
\<close>

theorem login_error_status_aborts:
  assumes "login_reply ctl = Response status cookie"
      and "400 \<le> status" and "status < 600"
  shows "fst (login cfg cd ctl s) = Inl RequestException
       \<and> fst (main cfg cd ctl a s) = Exit 1
       \<and> sent (snd (main cfg cd ctl a s))
           = sent s @ [POST (client_host cfg @ ''/api/auth/login'')
                         (UNIFI_USERNAME cfg, UNIFI_PASSWORD cfg)]
       \<and> stderr (snd (main cfg cd ctl a s)) = stderr s @ [Request_Error]
       \<and> stdout (snd (main cfg cd ctl a s)) = stdout s
       \<and> files (snd (main cfg cd ctl a s)) = files s"
proof -
  have failed: "fst (login cfg cd ctl s) = Inl RequestException"
    using assms by (simp add: login_rejected)
  have run: "main cfg cd ctl a s = (Exit 1, print_err Request_Error (snd (login cfg cd ctl s)))"
    using failed by (rule main_login_failed)
  show ?thesis
    using failed by (simp add: run login_failed_stderr)
qed

theorem login_error_status_aborts_witness:
  "fst (login example_config example_codecs (controller_login_status 401) (init_state Map.empty))
     = Inl RequestException
   \<and> fst (main example_config example_codecs (controller_login_status 401)
        (Sync ''Samsung Adblock'' ''filters.txt'') (init_state [''filters.txt'' \<mapsto> ''a.com'']))
     = Exit 1
   \<and> sent (snd (main example_config example_codecs (controller_login_status 401)
        (Sync ''Samsung Adblock'' ''filters.txt'') (init_state [''filters.txt'' \<mapsto> ''a.com''])))
     = [POST ''https://unifi.local/api/auth/login'' (''admin'', ''password'')]
   \<and> stderr (snd (main example_config example_codecs (controller_login_status 401)
        (Sync ''Samsung Adblock'' ''filters.txt'') (init_state [''filters.txt'' \<mapsto> ''a.com''])))
     = [Request_Error]"
proof -
  have a: "login_reply (controller_login_status 401) = Response 401 None"
    by (simp add: controller_login_status_def)
  have b: "(400::nat) \<le> 401" and c: "(401::nat) < 600"
    by simp_all
  show ?thesis
    using login_error_status_aborts [OF a b c, of example_config example_codecs "init_state Map.empty"]
      login_error_status_aborts [OF a b c, of example_config example_codecs
        "init_state [''filters.txt'' \<mapsto> ''a.com'']" "Sync ''Samsung Adblock'' ''filters.txt''"]
    by (simp add: client_host_def rstrip_char_def example_config_def)
qed

theorem login_status_304_counterexample:
  "fst (login example_config example_codecs (controller_login_status 304) (init_state Map.empty))
     = Inr ()
   \<and> fst (main example_config example_codecs (controller_login_status 304)
        (Fetch ''Samsung Adblock'' None) (init_state Map.empty)) = Exit 0"
  by (simp add: main_def main_try_def login_def fetch_command_def find_filter_def
      get_content_filters_def raise_for_status_def session_cookies_def extract_no_cookie
      extract_csrf_token_def cookies_get_simps not_filter_def is_empty_dict_def Let_def
      example_defs)

section \<open>Finding a filter by name\<close>

text \<open>
  C4. When the collection request succeeds, \<open>find_filter\<close> returns the first filter of
  the collection whose \<open>name\<close> equals the requested name character for character: with
  no such filter (so too for the empty collection) it returns \<open>None\<close>, and a filter
  that no equally named filter precedes is the one returned.
\<close>

theorem find_filter_first_exact_match:
  assumes "filters_reply ctl = Response status filters"
      and "\<not> (400 \<le> status \<and> status < 600)"
  shows "((\<forall>f \<in> set filters. cf_name f \<noteq> Some filter_name) \<longrightarrow>
            fst (find_filter cfg ctl filter_name s) = Inr None)
       \<and> (filters = pre @ f # post \<and> cf_name f = Some filter_name
            \<and> (\<forall>g \<in> set pre. cf_name g \<noteq> Some filter_name) \<longrightarrow>
            fst (find_filter cfg ctl filter_name s) = Inr (Some f))
       \<and> (filters = [] \<longrightarrow> fst (find_filter cfg ctl filter_name s) = Inr None)"
proof -
  have run: "fst (find_filter cfg ctl filter_name s) = Inr (find_in filters filter_name)"
    using assms by (simp add: find_filter_ok)
  have none: "(\<forall>f \<in> set filters. cf_name f \<noteq> Some filter_name) \<longrightarrow>
      find_in filters filter_name = None"
    by (simp add: find_in_none)
  have first: "filters = pre @ f # post \<and> cf_name f = Some filter_name
      \<and> (\<forall>g \<in> set pre. cf_name g \<noteq> Some filter_name) \<longrightarrow>
      find_in filters filter_name = Some f"
    using find_in_first by blast
  show ?thesis using run none first by simp
qed

theorem find_filter_first_exact_match_witness:
  "fst (find_filter example_config example_controller ''Samsung Adblock'' (init_state Map.empty))
     = Inr (Some filter_samsung)
   \<and> fst (find_filter example_config example_controller ''SAMSUNG ADBLOCK'' (init_state Map.empty))
     = Inr None
   \<and> fst (find_filter example_config (example_controller\<lparr>filters_reply := Response 200 []\<rparr>)
        ''Samsung Adblock'' (init_state Map.empty)) = Inr None"
proof -
  have a: "filters_reply example_controller = Response 200 example_filters"
    by (simp add: example_controller_def)
  have b: "\<not> (400 \<le> (200::nat) \<and> (200::nat) < 600)"
    by simp
  have c: "filters_reply (example_controller\<lparr>filters_reply := Response 200 []\<rparr>) = Response 200 []"
    by simp
  note t1 = find_filter_first_exact_match [OF a b, of "''Samsung Adblock''" example_config
      "init_state Map.empty" "[filter_lowercase]" filter_samsung
      "[filter_second, filter_legacy, filter_no_list]"]
  note t2 = find_filter_first_exact_match [OF a b, of "''SAMSUNG ADBLOCK''" example_config
      "init_state Map.empty"]
  note t3 = find_filter_first_exact_match [OF c b, of "''Samsung Adblock''" example_config
      "init_state Map.empty"]
  have "fst (find_filter example_config example_controller ''Samsung Adblock'' (init_state Map.empty))
     = Inr (Some filter_samsung)"
    using t1 by (simp add: example_defs)
  moreover have "fst (find_filter example_config example_controller ''SAMSUNG ADBLOCK'' (init_state Map.empty))
     = Inr None"
    using t2 by (simp add: example_defs)
  moreover have "fst (find_filter example_config (example_controller\<lparr>filters_reply := Response 200 []\<rparr>)
        ''Samsung Adblock'' (init_state Map.empty)) = Inr None"
    using t3 by simp
  ultimately show ?thesis by simp
qed

section \<open>Updating a filter\<close>

text \<open>
  C5. When the collection request succeeds and no filter of the collection has the
  requested name, \<open>update_content_filters\<close> returns \<open>False\<close>, prints the not-found
  line, and sends the collection request and nothing else: no \<open>PUT\<close>.
\<close>

theorem update_not_found_sends_no_put:
  assumes "filters_reply ctl = Response status filters"
      and "\<not> (400 \<le> status \<and> status < 600)"
      and "\<forall>f \<in> set filters. cf_name f \<noteq> Some filter_name"
  shows "fst (update_content_filters cfg ctl filter_name domains s) = Inr False
       \<and> sent (snd (update_content_filters cfg ctl filter_name domains s))
           = sent s @ [GET (filters_url cfg)]
       \<and> filter is_PUT (sent (snd (update_content_filters cfg ctl filter_name domains s)))
           = filter is_PUT (sent s)
       \<and> stderr (snd (update_content_filters cfg ctl filter_name domains s))
           = stderr s @ [Filter_Not_Found filter_name]"
proof -
  have "find_in filters filter_name = None"
    using assms(3) by (simp add: find_in_none)
  then have "fst (find_filter cfg ctl filter_name s) = Inr None"
    using assms(1,2) by (simp add: find_filter_ok)
  then show ?thesis
    by (simp add: update_not_found)
qed

theorem update_not_found_sends_no_put_witness:
  "fst (update_content_filters example_config example_controller ''Missing'' [''a.com'']
          (init_state Map.empty)) = Inr False
   \<and> filter is_PUT (sent (snd (update_content_filters example_config example_controller
          ''Missing'' [''a.com''] (init_state Map.empty)))) = []
   \<and> stderr (snd (update_content_filters example_config example_controller
          ''Missing'' [''a.com''] (init_state Map.empty))) = [Filter_Not_Found ''Missing'']"
proof -
  have a: "filters_reply example_controller = Response 200 example_filters"
    by (simp add: example_controller_def)
  have b: "\<not> (400 \<le> (200::nat) \<and> (200::nat) < 600)"
    by simp
  have c: "\<forall>f \<in> set example_filters. cf_name f \<noteq> Some ''Missing''"
    by (simp add: example_defs)
  show ?thesis
    using update_not_found_sends_no_put [OF a b c, of example_config "[''a.com'']"
        "init_state Map.empty"]
    by simp
qed




section \<open>Reading and writing the filter file\<close>

text \<open>
  C3. \<open>read_filter_file\<close> on a path that does not exist returns the empty list; on a
  file it returns the stripped lines that are not empty and do not start with \<open>#\<close>, in
  the order of the file, repeated lines repeated. The function has no exception in its
  type: the model's files are readable text.
\<close>

theorem read_filter_file_lines:
  "(files s filepath = None \<longrightarrow> fst (read_filter_file filepath silent s) = [])
   \<and> (files s filepath = Some text \<longrightarrow>
        fst (read_filter_file filepath silent s)
          = filter (\<lambda>l. l \<noteq> [] \<and> hd l \<noteq> CHR ''#'') (map strip (file_lines text)))"
proof (intro conjI impI)
  assume "files s filepath = None"
  then show "fst (read_filter_file filepath silent s) = []"
    by (rule read_missing_file)
next
  assume "files s filepath = Some text"
  then show "fst (read_filter_file filepath silent s)
      = filter (\<lambda>l. l \<noteq> [] \<and> hd l \<noteq> CHR ''#'') (map strip (file_lines text))"
    by (rule read_existing_file)
qed

theorem read_filter_file_lines_witness:
  "fst (read_filter_file ''missing.txt'' False (init_state [''filters.txt'' \<mapsto> example_text])) = []
   \<and> fst (read_filter_file ''filters.txt'' False (init_state [''filters.txt'' \<mapsto> example_text]))
      = [''b.com'', ''a.com'', ''b.com'', ''a b #c'']"
proof -
  have a: "files (init_state [''filters.txt'' \<mapsto> example_text]) ''missing.txt'' = None"
    by simp
  have b: "files (init_state [''filters.txt'' \<mapsto> example_text]) ''filters.txt'' = Some example_text"
    by simp
  have c: "filter (\<lambda>l. l \<noteq> [] \<and> hd l \<noteq> CHR ''#'') (map strip (file_lines example_text))
      = [''b.com'', ''a.com'', ''b.com'', ''a b #c'']"
    by (simp add: example_text_def file_lines_def strip_def isspace_def)
  show ?thesis
    using read_filter_file_lines [of "init_state [''filters.txt'' \<mapsto> example_text]" "''missing.txt''" False]
      read_filter_file_lines [of "init_state [''filters.txt'' \<mapsto> example_text]" "''filters.txt''" False example_text]
      a b c
    by simp
qed

text \<open>
  C2, as amended. For a list of clean domains (none empty, none with white space at
  either end, none starting with \<open>#\<close>, none with a line break inside) and a filter name
  without a line break, reading the file that \<open>write_filter_file\<close> wrote gives the sorted
  list. As stated, for every domain list, the claim fails: a domain starting with \<open>#\<close> is
  read as a comment, a padded domain comes back stripped, and a line break in the filter
  name puts the rest of the name among the domains.
\<close>

theorem write_then_read_sorted:
  assumes "\<forall>d \<in> set domains. clean_domain d"
      and "LF \<notin> set filter_name" and "CR \<notin> set filter_name"
  shows "fst (read_filter_file filepath silent (write_filter_file filepath domains filter_name s))
           = sort domains"
proof -
  let ?ds = "sort domains"
  let ?text = "file_header filter_name @ one_per_line ?ds"
  have clean: "\<forall>d \<in> set ?ds. clean_domain d"
    using assms(1) by simp
  have noLF: "\<forall>d \<in> set ?ds. LF \<notin> set d" and noCR: "\<forall>d \<in> set ?ds. CR \<notin> set d"
    using clean by (simp_all add: clean_domain_def)
  have stored: "files (write_filter_file filepath domains filter_name s) filepath = Some ?text"
    by (simp add: write_filter_file_def write_loop_text Let_def)
  have "CR \<notin> set (file_header filter_name)"
    using assms(3) header_no_breaks by (simp add: file_header_lines)
  moreover have "CR \<notin> set (one_per_line ?ds)"
    using noCR by (auto simp: one_per_line_def)
  ultimately have "universal_newlines ?text = ?text"
    by (simp add: universal_newlines_no_CR)
  then have lines: "file_lines ?text
      = [(''# '' @ filter_name) @ [LF], header_line2 @ [LF], header_line3 @ [LF], [LF]]
        @ map (\<lambda>d. d @ [LF]) ?ds"
    using iter_lines_file [OF assms(2) noLF] by (simp add: file_lines_def)
  obtain x2 x3 where h: "header_line2 @ [LF] = CHR ''#'' # x2" "header_line3 @ [LF] = CHR ''#'' # x3"
    using header_hash by blast
  have "filter (\<lambda>l. l \<noteq> [] \<and> hd l \<noteq> CHR ''#'') (map strip (file_lines ?text)) = ?ds"
    using read_loop_clean [OF clean] strip_comment_line strip_blank_line
    by (simp add: lines h)
  then show ?thesis
    using read_existing_file [OF stored] by simp
qed

theorem write_then_read_sorted_witness:
  "fst (read_filter_file ''filters.txt'' False
          (write_filter_file ''filters.txt'' [''b.com'', ''a.com'', ''ads.b.com'', ''a.com'']
             ''Samsung Adblock'' (init_state Map.empty)))
     = [''a.com'', ''a.com'', ''ads.b.com'', ''b.com'']"
proof -
  have a: "\<forall>d \<in> set [''b.com'', ''a.com'', ''ads.b.com'', ''a.com'']. clean_domain d"
    by (simp add: clean_domain_def isspace_def)
  have b: "LF \<notin> set ''Samsung Adblock''" and c: "CR \<notin> set ''Samsung Adblock''"
    by simp_all
  have d: "sort [''b.com'', ''a.com'', ''ads.b.com'', ''a.com'']
      = [''a.com'', ''a.com'', ''ads.b.com'', ''b.com'']"
    by simp
  show ?thesis
    using write_then_read_sorted [OF a b c, of "''filters.txt''" False "init_state Map.empty"] d
    by simp
qed

theorem write_then_read_counterexample:
  "fst (read_filter_file ''filters.txt'' True
          (write_filter_file ''filters.txt'' [''#ads.com''] ''Content Filter'' (init_state Map.empty)))
     = []
   \<and> fst (read_filter_file ''filters.txt'' True
          (write_filter_file ''filters.txt'' [''#ads.com''] ''Content Filter'' (init_state Map.empty)))
     \<noteq> sort [''#ads.com'']
   \<and> fst (read_filter_file ''filters.txt'' True
          (write_filter_file ''filters.txt'' ['' a.com''] ''Content Filter'' (init_state Map.empty)))
     = [''a.com'']
   \<and> fst (read_filter_file ''filters.txt'' True
          (write_filter_file ''filters.txt'' ['' a.com''] ''Content Filter'' (init_state Map.empty)))
     \<noteq> sort ['' a.com'']
   \<and> fst (read_filter_file ''filters.txt'' True
          (write_filter_file ''filters.txt'' [''a.com'']
             (''x'' @ [LF] @ ''evil.com'') (init_state Map.empty)))
     = [''evil.com'', ''a.com'']
   \<and> fst (read_filter_file ''filters.txt'' True
          (write_filter_file ''filters.txt'' [''a.com'']
             (''x'' @ [LF] @ ''evil.com'') (init_state Map.empty)))
     \<noteq> sort [''a.com'']"
  by code_simp

section \<open>The commands\<close>

text \<open>
  C9. After a successful login, \<open>fetch\<close> without an output path on a filter that
  \<open>find_filter\<close> finds ends with exit status 0 and appends to standard output the
  filter's \<open>block_list\<close> (empty when the key is missing), one domain per line, in sorted
  order: the printed list is ordered and has the elements of \<open>block_list\<close>, each as often.
\<close>

theorem fetch_prints_sorted_block_list:
  assumes "fst (login cfg cd ctl s) = Inr ()"
      and "fst (find_filter cfg ctl filter_name (snd (login cfg cd ctl s))) = Inr (Some f)"
      and "block_list = (case cf_block_list f of None \<Rightarrow> [] | Some ds \<Rightarrow> ds)"
  shows "fst (main cfg cd ctl (Fetch filter_name None) s) = Exit 0
       \<and> stdout (snd (main cfg cd ctl (Fetch filter_name None) s))
           = stdout s @ one_per_line (sort block_list)
       \<and> sorted (sort block_list)
       \<and> mset (sort block_list) = mset block_list
       \<and> files (snd (main cfg cd ctl (Fetch filter_name None) s)) = files s"
  using assms(3)
  by (simp add: main_fetch_found [OF assms(1,2)] print_loop_text Let_def)

theorem fetch_prints_sorted_block_list_witness:
  "fst (main example_config example_codecs example_controller (Fetch ''Samsung Adblock'' None)
          (init_state Map.empty)) = Exit 0
   \<and> stdout (snd (main example_config example_codecs example_controller
          (Fetch ''Samsung Adblock'' None) (init_state Map.empty)))
      = ''a.com'' @ [LF] @ ''b.com'' @ [LF]"
proof -
  have a: "fst (login example_config example_codecs example_controller (init_state Map.empty)) = Inr ()"
    by (simp add: example_login)
  have b: "fst (find_filter example_config example_controller ''Samsung Adblock''
      (snd (login example_config example_codecs example_controller (init_state Map.empty))))
      = Inr (Some filter_samsung)"
    by (rule example_find)
  have c: "[''b.com'', ''a.com''] = (case cf_block_list filter_samsung of None \<Rightarrow> [] | Some ds \<Rightarrow> ds)"
    by (simp add: filter_samsung_def)
  have d: "sort [''b.com'', ''a.com''] = [''a.com'', ''b.com'']"
    by simp
  show ?thesis
    using fetch_prints_sorted_block_list [OF a b c] d
    by (simp add: one_per_line_def)
qed

text \<open>
  C10. After a successful login, \<open>fetch\<close> on a found filter without the key
  \<open>block_list\<close> ends with exit status 0 and reports zero domains: without an output
  path it prints nothing to standard output, with one it writes the header alone.
\<close>

theorem fetch_without_block_list:
  assumes "fst (login cfg cd ctl s) = Inr ()"
      and "fst (find_filter cfg ctl filter_name (snd (login cfg cd ctl s))) = Inr (Some f)"
      and "cf_block_list f = None"
      and "path \<noteq> []"
  shows "fst (main cfg cd ctl (Fetch filter_name None) s) = Exit 0
       \<and> stdout (snd (main cfg cd ctl (Fetch filter_name None) s)) = stdout s
       \<and> files (snd (main cfg cd ctl (Fetch filter_name None) s)) = files s
       \<and> stderr (snd (main cfg cd ctl (Fetch filter_name None) s))
           = stderr (snd (login cfg cd ctl s)) @ [Fetched 0]
       \<and> fst (main cfg cd ctl (Fetch filter_name (Some path)) s) = Exit 0
       \<and> stdout (snd (main cfg cd ctl (Fetch filter_name (Some path)) s)) = stdout s
       \<and> files (snd (main cfg cd ctl (Fetch filter_name (Some path)) s))
           = (files s)(path \<mapsto> file_header filter_name)
       \<and> stderr (snd (main cfg cd ctl (Fetch filter_name (Some path)) s))
           = stderr (snd (login cfg cd ctl s)) @ [Fetched 0, Wrote_Domains 0 path]"
  using assms(3,4)
  by (simp add: main_fetch_found [OF assms(1,2)] print_loop_text write_filter_file_def
      write_loop_text one_per_line_def Let_def)

theorem fetch_without_block_list_witness:
  "fst (main example_config example_codecs example_controller (Fetch ''Fresh'' None)
          (init_state Map.empty)) = Exit 0
   \<and> stdout (snd (main example_config example_codecs example_controller
          (Fetch ''Fresh'' None) (init_state Map.empty))) = []
   \<and> stderr (snd (main example_config example_codecs example_controller
          (Fetch ''Fresh'' None) (init_state Map.empty))) = [Logged_In True, Fetched 0]
   \<and> fst (main example_config example_codecs example_controller (Fetch ''Fresh'' (Some ''out.txt''))
          (init_state Map.empty)) = Exit 0
   \<and> files (snd (main example_config example_codecs example_controller
          (Fetch ''Fresh'' (Some ''out.txt'')) (init_state Map.empty))) ''out.txt''
      = Some (file_header ''Fresh'')"
proof -
  have a: "fst (login example_config example_codecs example_controller (init_state Map.empty)) = Inr ()"
    by (simp add: example_login)
  have b: "fst (find_filter example_config example_controller ''Fresh''
      (snd (login example_config example_codecs example_controller (init_state Map.empty))))
      = Inr (Some filter_no_list)"
    by (rule example_find)
  have c: "cf_block_list filter_no_list = None"
    by (simp add: filter_no_list_def)
  have d: "''out.txt'' \<noteq> []"
    by simp
  show ?thesis
    using fetch_without_block_list [OF a b c d]
    by (simp add: example_login)
qed

text \<open>
  C8. \<open>sync\<close> on a file whose lines are all blank or comments reads no domain, ends
  with exit status 1 and a failure line last on the error stream, and has sent the login
  request only: no \<open>PUT\<close>. This holds whether the login succeeds or is refused.
\<close>

theorem sync_comment_only_file_exits_1:
  assumes "files s file = Some text"
      and "\<forall>l \<in> set (file_lines text). strip l = [] \<or> hd (strip l) = CHR ''#''"
  shows "fst (read_filter_file file False (snd (login cfg cd ctl s))) = []
       \<and> fst (main cfg cd ctl (Sync filter_name file) s) = Exit 1
       \<and> sent (snd (main cfg cd ctl (Sync filter_name file) s))
           = sent s @ [POST (client_host cfg @ ''/api/auth/login'')
                         (UNIFI_USERNAME cfg, UNIFI_PASSWORD cfg)]
       \<and> filter is_PUT (sent (snd (main cfg cd ctl (Sync filter_name file) s)))
           = filter is_PUT (sent s)
       \<and> stderr (snd (main cfg cd ctl (Sync filter_name file) s)) \<noteq> []
       \<and> failure_glyph (last (stderr (snd (main cfg cd ctl (Sync filter_name file) s))))"
proof -
  let ?s1 = "snd (login cfg cd ctl s)"
  have none_kept: "filter (\<lambda>l. l \<noteq> [] \<and> hd l \<noteq> CHR ''#'') (map strip (file_lines text)) = []"
    using assms(2) by (auto simp: filter_empty_conv)
  have empty: "fst (read_filter_file file False ?s1) = []"
    using assms(1) none_kept read_existing_file [of "?s1" "file" "text" False] by simp
  consider (rejected) "fst (login cfg cd ctl s) = Inl RequestException"
    | (logged_in) "fst (login cfg cd ctl s) = Inr ()"
    using login_result by blast
  then have "fst (main cfg cd ctl (Sync filter_name file) s) = Exit 1
       \<and> sent (snd (main cfg cd ctl (Sync filter_name file) s))
           = sent s @ [POST (client_host cfg @ ''/api/auth/login'')
                         (UNIFI_USERNAME cfg, UNIFI_PASSWORD cfg)]
       \<and> stderr (snd (main cfg cd ctl (Sync filter_name file) s)) \<noteq> []
       \<and> failure_glyph (last (stderr (snd (main cfg cd ctl (Sync filter_name file) s))))"
  proof cases
    case rejected
    then show ?thesis by (simp add: main_login_failed)
  next
    case logged_in
    have "main_try cfg cd ctl (Sync filter_name file) s
        = (Inl (SystemExit 1), print_err No_Domains (snd (read_filter_file file False ?s1)))"
      using empty by (simp add: main_login_ok [OF logged_in] sync_nothing_to_sync)
    then show ?thesis by (simp add: main_def)
  qed
  then show ?thesis using empty by simp
qed

theorem sync_comment_only_file_exits_1_witness:
  "fst (main example_config example_codecs example_controller
          (Sync ''Samsung Adblock'' ''filters.txt'') (init_state [''filters.txt'' \<mapsto> comments_only]))
     = Exit 1
   \<and> sent (snd (main example_config example_codecs example_controller
          (Sync ''Samsung Adblock'' ''filters.txt'') (init_state [''filters.txt'' \<mapsto> comments_only])))
     = [POST ''https://unifi.local/api/auth/login'' (''admin'', ''password'')]
   \<and> failure_glyph (last (stderr (snd (main example_config example_codecs example_controller
          (Sync ''Samsung Adblock'' ''filters.txt'') (init_state [''filters.txt'' \<mapsto> comments_only])))))"
proof -
  have a: "files (init_state [''filters.txt'' \<mapsto> comments_only]) ''filters.txt'' = Some comments_only"
    by simp
  have b: "\<forall>l \<in> set (file_lines comments_only). strip l = [] \<or> hd (strip l) = CHR ''#''"
    by (simp add: comments_only_def file_lines_def strip_def isspace_def)
  show ?thesis
    using sync_comment_only_file_exits_1 [OF a b, of example_config example_codecs
        example_controller "''Samsung Adblock''"]
    by (simp add: client_host_def rstrip_char_def example_config_def)
qed

end
